theory Spec2Isabelle
  imports Complex_Main
begin

section \<open>Python values shared by the client and the vendor\<close>

text \<open>
  Byte strings and text strings are both character lists. An exception is its class
  together with the text that \<^verbatim>\<open>str(e)\<close> gives; a subclass is recorded under the
  nearest class listed here (\<^verbatim>\<open>socket.error\<close> and its subclasses are \<open>OSError\<close>).
\<close>

type_synonym bytes = string

datatype pyclass = TypeError | ValueError | RuntimeError | OSError | IndexError
  | KeyError | ZeroDivisionError | PlainException

datatype exn = Exc pyclass string

fun exn_class :: "exn \<Rightarrow> pyclass" where
  "exn_class (Exc c m) = c"

fun str_exn :: "exn \<Rightarrow> string" where
  "str_exn (Exc c m) = m"

text \<open>\<^verbatim>\<open>s.startswith(p)\<close> and \<^verbatim>\<open>sub in s\<close> on strings.\<close>

fun startswith :: "string \<Rightarrow> string \<Rightarrow> bool" where
  "startswith s [] = True"
| "startswith [] (p # ps) = False"
| "startswith (c # cs) (p # ps) = (c = p \<and> startswith cs ps)"

fun str_in :: "string \<Rightarrow> string \<Rightarrow> bool" where
  "str_in sub [] = (sub = [])"
| "str_in sub (c # cs) = (startswith (c # cs) sub \<or> str_in sub cs)"

section \<open>Client: the request worker threads\<close>

text \<open>
  A request tuple of the requestor object: element 0 is the mirror's record (of which
  the worker reads the socket), element 2 the bit string or the chunks, element 3 the
  request type. The requestor (\<^verbatim>\<open>simplexorrequestor\<close>) and the sending functions of
  \<^verbatim>\<open>raidpirlib\<close> are outside the client file: the worker is given the requests that
  \<^verbatim>\<open>get_next_xorrequest(tid)\<close> hands to it, in order, followed by \<^verbatim>\<open>()\<close>, and the sending
  function as a parameter that returns \<open>None\<close> or the exception it raises.
\<close>

record xorrequest =
  sock :: nat
  reqnum :: nat
  payload :: bytes
  rqtype :: nat

datatype sendkind = Plain | ChunkedRng | ChunkedRngParallel | Chunked

type_synonym sender = "sendkind \<Rightarrow> nat \<Rightarrow> bytes \<Rightarrow> exn option"

text \<open>What a worker leaves behind: the requests passed to \<^verbatim>\<open>notify_failure\<close> and the
  characters written to standard output.\<close>

record worker_state =
  failed :: "xorrequest list"
  stdout :: string

definition notify_failure :: "xorrequest \<Rightarrow> worker_state \<Rightarrow> worker_state" where
  "notify_failure rq st = st\<lparr>failed := failed st @ [rq]\<rparr>"

text \<open>The \<^verbatim>\<open>except Exception as e\<close> block, the same in both helpers: \<open>None\<close> when the
  loop goes on, the exception when it is raised again.\<close>

definition on_exception :: "exn \<Rightarrow> xorrequest \<Rightarrow> worker_state \<Rightarrow> exn option \<times> worker_state" where
  "on_exception e rq st =
     (if str_in ''socked'' (str_exn e)
      then (None, (notify_failure rq st)\<lparr>stdout := stdout (notify_failure rq st) @ ''F''\<rparr>)
      else (Some e, st))"

fun request_loop :: "sender \<Rightarrow> nat \<Rightarrow> xorrequest list \<Rightarrow> worker_state \<Rightarrow> exn option \<times> worker_state" where
  "request_loop send socket [] st = (None, st)"
| "request_loop send socket (rq # rest) st =
     (case send Plain socket (payload rq) of
        None \<Rightarrow> request_loop send socket rest st
      | Some e \<Rightarrow>
          (case on_exception e rq st of
             (None, st') \<Rightarrow> request_loop send socket rest st'
           | (Some e', st') \<Rightarrow> (Some e', st')))"

text \<open>\<^verbatim>\<open>thisrequest[0]['sock']\<close> is read before the loop: on \<^verbatim>\<open>()\<close> it raises IndexError.\<close>

definition request_helper :: "sender \<Rightarrow> xorrequest list \<Rightarrow> worker_state \<Rightarrow> exn option \<times> worker_state" where
  "request_helper send reqs st =
     (case reqs of
        [] \<Rightarrow> (Some (Exc IndexError ''tuple index out of range''), st)
      | rq # _ \<Rightarrow> request_loop send (sock rq) reqs st)"

definition chunked_kind :: "nat \<Rightarrow> sendkind" where
  "chunked_kind t = (if t = 1 then ChunkedRng else if t = 2 then ChunkedRngParallel else Chunked)"

fun request_loop_chunked :: "sender \<Rightarrow> nat \<Rightarrow> nat \<Rightarrow> xorrequest list \<Rightarrow> worker_state \<Rightarrow> exn option \<times> worker_state" where
  "request_loop_chunked send socket t [] st = (None, st)"
| "request_loop_chunked send socket t (rq # rest) st =
     (case send (chunked_kind t) socket (payload rq) of
        None \<Rightarrow> request_loop_chunked send socket t rest st
      | Some e \<Rightarrow>
          (case on_exception e rq st of
             (None, st') \<Rightarrow> request_loop_chunked send socket t rest st'
           | (Some e', st') \<Rightarrow> (Some e', st')))"

definition request_helper_chunked :: "sender \<Rightarrow> xorrequest list \<Rightarrow> worker_state \<Rightarrow> exn option \<times> worker_state" where
  "request_helper_chunked send reqs st =
     (case reqs of
        [] \<Rightarrow> (Some (Exc IndexError ''tuple index out of range''), st)
      | rq # _ \<Rightarrow> request_loop_chunked send (sock rq) (rqtype rq) reqs st)"

section \<open>Client: the chunk lengths\<close>

text \<open>
  Modelled from the spec: \<^verbatim>\<open>lib.bits_to_bytes\<close> is in \<^verbatim>\<open>raidpirlib\<close>, which is not
  among the sources; the spec stores a vector of n bits in \<open>ceil(n/8)\<close> bytes.
\<close>

definition bits_to_bytes :: "int \<Rightarrow> int" where
  "bits_to_bytes n = (n + 7) div 8"

text \<open>
  The two assignments in the chunk branch of \<^verbatim>\<open>request_blocks_from_mirrors\<close>. The client
  is Python 3, where \<^verbatim>\<open>/\<close> on integers is true division: the quotients are written
  here as exact rationals, which is what the resulting floats are whenever the quotient
  is a small dyadic fraction, as in the evaluations below. A divisor of zero raises.
\<close>

definition chunk_lengths :: "int \<Rightarrow> int \<Rightarrow> exn + (rat \<times> rat)" where
  "chunk_lengths blockcount numberofmirrors =
     (if numberofmirrors = 0 then Inl (Exc ZeroDivisionError ''division by zero'')
      else
        (let chunklen = (of_int blockcount / 8) / of_int numberofmirrors;
             lastchunklen = of_int (bits_to_bytes blockcount) - of_int (numberofmirrors - 1) * chunklen
         in Inr (chunklen, lastchunklen)))"

section \<open>Client: options, manifest and the outside world\<close>

text \<open>The option values as \<^verbatim>\<open>optparse\<close> delivers them; \<open>filestoretrieve\<close> is added by
  \<^verbatim>\<open>parse_options\<close>.\<close>

record options =
  retrievemanifestfrom :: string
  printfiles :: bool
  vendorip :: "string option"
  manifestfilename :: string
  numberofmirrors :: int
  redundancy :: "int option"
  rng :: bool
  parallel :: bool
  batch :: bool
  timing :: bool
  comment :: string
  filestoretrieve :: "string list"

record fileinfo =
  filename :: string
  hash :: bytes

record manifest =
  blockcount :: int
  blocksize :: int
  hashalgorithm :: string
  vendorhostname :: string
  vendorport :: int
  fileinfolist :: "fileinfo list"

text \<open>The \<^verbatim>\<open>print\<close> statements of the client, one constructor each.\<close>

datatype msg =
    Banner
  | MirrorsTooFew
  | RedundancyTooLow
  | RedundancyTooHigh int
  | ChunksRequired
  | NoFileGiven
  | BlockcountTooLow
  | ManifestInfo int int "string list"
  | FileNotListed string
  | Wrote string

text \<open>
  What the client does to the outside: printing, the manifest download from the vendor
  (\<^verbatim>\<open>lib.retrieve_rawmanifest\<close>), the retrieval of blocks (the mirror list request to the
  vendor and the XOR requests to the mirrors, all inside
  \<^verbatim>\<open>request_blocks_from_mirrors\<close>), reading and writing files, and the timing log.
\<close>

datatype event =
    Print msg
  | VendorManifestRequest string
  | MirrorRetrieval "int list"
  | FileRead string
  | FileWrite string bytes
  | TimingLog

fun is_network :: "event \<Rightarrow> bool" where
  "is_network (VendorManifestRequest a) = True"
| "is_network (MirrorRetrieval bs) = True"
| "is_network e = False"

fun is_retrieval :: "event \<Rightarrow> bool" where
  "is_retrieval (MirrorRetrieval bs) = True"
| "is_retrieval e = False"

fun is_filewrite :: "event \<Rightarrow> bool" where
  "is_filewrite (FileWrite n d) = True"
| "is_filewrite e = False"

datatype outcome = Returned | Exited int | Raised exn

text \<open>
  The functions of \<^verbatim>\<open>raidpirlib\<close> and of the requestor that the client calls, and the
  file system it reads, are parameters: each returns its value or the exception it
  raises. \<open>run_requestor\<close> stands for setting up the requestor object, running the worker
  threads and \<^verbatim>\<open>cleanup\<close>; its value is the requestor's \<^verbatim>\<open>return_block\<close>.
\<close>

record env =
  retrieve_rawmanifest :: "string \<Rightarrow> exn + bytes"
  parse_manifest :: "bytes \<Rightarrow> exn + manifest"
  get_filenames_in_release :: "manifest \<Rightarrow> string list"
  get_blocklist_for_file :: "string \<Rightarrow> manifest \<Rightarrow> exn + int list"
  extract_file_from_blockdict :: "string \<Rightarrow> manifest \<Rightarrow> (int \<rightharpoonup> bytes) \<Rightarrow> exn + bytes"
  find_hash :: "bytes \<Rightarrow> string \<Rightarrow> exn + bytes"
  read_file :: "string \<Rightarrow> exn + bytes"
  run_requestor :: "options \<Rightarrow> int list \<Rightarrow> manifest \<Rightarrow> exn + (int \<Rightarrow> bytes)"

section \<open>Client: retrieving blocks and files\<close>

text \<open>The last loop of \<^verbatim>\<open>request_blocks_from_mirrors\<close> fills the returned dict.\<close>

fun fill_retdict :: "(int \<Rightarrow> bytes) \<Rightarrow> int list \<Rightarrow> (int \<rightharpoonup> bytes) \<Rightarrow> (int \<rightharpoonup> bytes)" where
  "fill_retdict return_block [] retdict = retdict"
| "fill_retdict return_block (blocknum # rest) retdict =
     fill_retdict return_block rest (retdict(blocknum \<mapsto> return_block blocknum))"

definition request_blocks_from_mirrors ::
  "env \<Rightarrow> options \<Rightarrow> int list \<Rightarrow> manifest \<Rightarrow> (exn + (int \<rightharpoonup> bytes)) \<times> event list" where
  "request_blocks_from_mirrors E opts requestedblocklist manifestdict =
     (case run_requestor E opts requestedblocklist manifestdict of
        Inl e \<Rightarrow> (Inl e, [MirrorRetrieval requestedblocklist])
      | Inr return_block \<Rightarrow>
          (Inr (fill_retdict return_block requestedblocklist Map.empty),
           [MirrorRetrieval requestedblocklist]))"

text \<open>The two nested loops that collect \<open>neededblocks\<close>.\<close>

fun add_blocks :: "int list \<Rightarrow> int list \<Rightarrow> int list" where
  "add_blocks neededblocks [] = neededblocks"
| "add_blocks neededblocks (blocknum # rest) =
     add_blocks (if blocknum \<notin> set neededblocks then neededblocks @ [blocknum] else neededblocks) rest"

fun needed_blocks :: "env \<Rightarrow> manifest \<Rightarrow> string list \<Rightarrow> int list \<Rightarrow> exn + int list" where
  "needed_blocks E manifestdict [] neededblocks = Inr neededblocks"
| "needed_blocks E manifestdict (f # fs) neededblocks =
     (case get_blocklist_for_file E f manifestdict of
        Inl e \<Rightarrow> Inl e
      | Inr theseblocks \<Rightarrow> needed_blocks E manifestdict fs (add_blocks neededblocks theseblocks))"

text \<open>The inner \<^verbatim>\<open>for fileinfo in manifestdict['fileinfolist'] ... else\<close> loop: \<open>None\<close> is the
  \<^verbatim>\<open>break\<close>.\<close>

fun check_hash :: "fileinfo list \<Rightarrow> string \<Rightarrow> bytes \<Rightarrow> exn option" where
  "check_hash [] fname thisfilehash =
     Some (Exc PlainException ''Internal Error: Cannot locate fileinfo in manifest!'')"
| "check_hash (fi # rest) fname thisfilehash =
     (if filename fi = fname
      then (if thisfilehash = hash fi then None
            else Some (Exc PlainException
              ''Corrupt manifest has incorrect file hash despite passing block hash checks!''))
      else check_hash rest fname thisfilehash)"

text \<open>The body of the writing loop up to the write: the file's data when every step
  succeeded.\<close>

definition check_file :: "env \<Rightarrow> manifest \<Rightarrow> (int \<rightharpoonup> bytes) \<Rightarrow> string \<Rightarrow> exn + bytes" where
  "check_file E manifestdict blockdict fname =
     (case extract_file_from_blockdict E fname manifestdict blockdict of
        Inl e \<Rightarrow> Inl e
      | Inr filedata \<Rightarrow>
          (case find_hash E filedata (hashalgorithm manifestdict) of
             Inl e \<Rightarrow> Inl e
           | Inr thisfilehash \<Rightarrow>
               (case check_hash (fileinfolist manifestdict) fname thisfilehash of
                  Some e \<Rightarrow> Inl e
                | None \<Rightarrow> Inr filedata)))"

text \<open>\<^verbatim>\<open>os.path.basename\<close>: what follows the last slash.\<close>

definition basename :: "string \<Rightarrow> string" where
  "basename p = rev (takeWhile (\<lambda>c. c \<noteq> CHR ''/'') (rev p))"

fun write_files :: "env \<Rightarrow> manifest \<Rightarrow> (int \<rightharpoonup> bytes) \<Rightarrow> string list \<Rightarrow> exn option \<times> event list" where
  "write_files E manifestdict blockdict [] = (None, [])"
| "write_files E manifestdict blockdict (f # fs) =
     (case check_file E manifestdict blockdict f of
        Inl e \<Rightarrow> (Some e, [])
      | Inr filedata \<Rightarrow>
          (case write_files E manifestdict blockdict fs of
             (r, evs) \<Rightarrow> (r, FileWrite (basename f) filedata # Print (Wrote (basename f)) # evs)))"

definition request_files_from_mirrors ::
  "env \<Rightarrow> options \<Rightarrow> string list \<Rightarrow> manifest \<Rightarrow> exn option \<times> event list" where
  "request_files_from_mirrors E opts requestedfilelist manifestdict =
     (case needed_blocks E manifestdict requestedfilelist [] of
        Inl e \<Rightarrow> (Some e, [])
      | Inr neededblocks \<Rightarrow>
          (case request_blocks_from_mirrors E opts neededblocks manifestdict of
             (Inl e, evs) \<Rightarrow> (Some e, evs)
           | (Inr blockdict, evs) \<Rightarrow>
               (case write_files E manifestdict blockdict requestedfilelist of
                  (r, evs') \<Rightarrow> (r, evs @ evs'))))"

section \<open>Client: option parsing and main\<close>

text \<open>\<^verbatim>\<open>parse_options\<close>: the exit code when it calls \<^verbatim>\<open>sys.exit\<close>, the options object as it
  leaves it, and what it printed.\<close>

definition parse_options :: "options \<Rightarrow> string list \<Rightarrow> int option \<times> options \<times> event list" where
  "parse_options parsed remainingargs =
     (let opts = (if parallel parsed then parsed\<lparr>rng := True\<rparr> else parsed) in
      if numberofmirrors opts < 2 then (Some 1, opts, [Print MirrorsTooFew])
      else if (case redundancy opts of None \<Rightarrow> False | Some r \<Rightarrow> r < 2)
        then (Some 1, opts, [Print RedundancyTooLow])
      else if (case redundancy opts of None \<Rightarrow> False | Some r \<Rightarrow> r > numberofmirrors opts)
        then (Some 1, opts, [Print (RedundancyTooHigh (numberofmirrors opts))])
      else if (rng opts \<or> parallel opts) \<and> (case redundancy opts of None \<Rightarrow> True | Some r \<Rightarrow> r = 0)
        then (Some 1, opts, [Print ChunksRequired])
      else if length remainingargs = 0 \<and> printfiles opts = False
        then (Some 1, opts, [Print NoFileGiven])
      else (None, opts\<lparr>filestoretrieve := remainingargs\<rparr>, []))"

text \<open>The first part of \<^verbatim>\<open>main\<close>: the manifest, downloaded or read from disk.\<close>

definition load_manifest :: "env \<Rightarrow> options \<Rightarrow> (exn + manifest) \<times> event list" where
  "load_manifest E opts =
     (if retrievemanifestfrom opts \<noteq> []
      then
        (case retrieve_rawmanifest E (retrievemanifestfrom opts) of
           Inl e \<Rightarrow> (Inl e, [VendorManifestRequest (retrievemanifestfrom opts)])
         | Inr rawmanifestdata \<Rightarrow>
             (case parse_manifest E rawmanifestdata of
                Inl e \<Rightarrow> (Inl e, [VendorManifestRequest (retrievemanifestfrom opts)])
              | Inr manifestdict \<Rightarrow>
                  (Inr manifestdict,
                   [VendorManifestRequest (retrievemanifestfrom opts),
                    FileWrite (manifestfilename opts) rawmanifestdata])))
      else
        (case read_file E (manifestfilename opts) of
           Inl e \<Rightarrow> (Inl e, [FileRead (manifestfilename opts)])
         | Inr rawmanifestdata \<Rightarrow>
             (case parse_manifest E rawmanifestdata of
                Inl e \<Rightarrow> (Inl e, [FileRead (manifestfilename opts)])
              | Inr manifestdict \<Rightarrow> (Inr manifestdict, [FileRead (manifestfilename opts)]))))"

text \<open>The loop that looks for a requested file missing from the release.\<close>

fun first_unlisted :: "string list \<Rightarrow> string list \<Rightarrow> string option" where
  "first_unlisted [] filelist = None"
| "first_unlisted (f # fs) filelist =
     (if f \<notin> set filelist then Some f else first_unlisted fs filelist)"

definition main_checked :: "env \<Rightarrow> options \<Rightarrow> manifest \<Rightarrow> outcome \<times> event list" where
  "main_checked E opts manifestdict =
     (let filelist = get_filenames_in_release E manifestdict in
      if blockcount manifestdict < numberofmirrors opts * 8 \<and> redundancy opts \<noteq> None
      then (Exited 1, [Print BlockcountTooLow])
      else
        (let evs =
           (if printfiles opts
            then [Print (ManifestInfo (blockcount manifestdict) (blocksize manifestdict) filelist)]
            else [])
           @ (if timing opts then [TimingLog] else [])
         in
           (case first_unlisted (filestoretrieve opts) filelist of
              Some f \<Rightarrow> (Exited 2, evs @ [Print (FileNotListed f)])
            | None \<Rightarrow>
                if length (filestoretrieve opts) > 0
                then
                  (case request_files_from_mirrors E opts (filestoretrieve opts) manifestdict of
                     (None, evs') \<Rightarrow> (Returned, evs @ evs')
                   | (Some e, evs') \<Rightarrow> (Raised e, evs @ evs'))
                else (Returned, evs))))"

definition main :: "env \<Rightarrow> options \<Rightarrow> outcome \<times> event list" where
  "main E opts =
     (case load_manifest E opts of
        (Inl e, evs) \<Rightarrow> (Raised e, evs)
      | (Inr manifestdict, evs) \<Rightarrow>
          (case main_checked E opts manifestdict of (r, evs') \<Rightarrow> (r, evs @ evs')))"

text \<open>The script: the banner, \<^verbatim>\<open>parse_options\<close>, the timing log, \<^verbatim>\<open>main\<close>.\<close>

definition client :: "env \<Rightarrow> options \<Rightarrow> string list \<Rightarrow> outcome \<times> event list" where
  "client E parsed remainingargs =
     (case parse_options parsed remainingargs of
        (Some code, opts, evs) \<Rightarrow> (Exited code, Print Banner # evs)
      | (None, opts, evs) \<Rightarrow>
          (case main E opts of
             (Returned, evs') \<Rightarrow>
               (Returned, Print Banner # evs @ (if timing opts then [TimingLog] else [])
                  @ evs' @ (if timing opts then [TimingLog] else []))
           | (r, evs') \<Rightarrow>
               (r, Print Banner # evs @ (if timing opts then [TimingLog] else []) @ evs')))"

section \<open>Vendor: the mirror map\<close>

text \<open>A value that \<^verbatim>\<open>msgpack.unpackb\<close> can return.\<close>

datatype pyval =
    PNone
  | PBool bool
  | PInt int
  | PStr string
  | PBytes bytes
  | PList "pyval list"
  | PDict "(pyval \<times> pyval) list"

text \<open>An entry of \<^verbatim>\<open>_global_mirrorinfodict\<close>. Times are whole seconds.\<close>

record mirror_entry =
  mirrorinfo :: pyval
  advertisetime :: int

text \<open>
  The dict keeps insertion order, so it is an association list with distinct keys:
  assignment replaces the value of a key that is there and appends a new key, \<^verbatim>\<open>del\<close>
  removes the pair.
\<close>

type_synonym mirrordict = "(string \<times> mirror_entry) list"

fun dict_set :: "string \<Rightarrow> mirror_entry \<Rightarrow> mirrordict \<Rightarrow> mirrordict" where
  "dict_set k v [] = [(k, v)]"
| "dict_set k v ((k', v') # rest) =
     (if k' = k then (k, v) # rest else (k', v') # dict_set k v rest)"

fun dict_del :: "string \<Rightarrow> mirrordict \<Rightarrow> mirrordict" where
  "dict_del k [] = []"
| "dict_del k ((k', v') # rest) = (if k' = k then rest else (k', v') # dict_del k rest)"

text \<open>What \<^verbatim>\<open>session.sendmessage\<close> is given: raw bytes, a text, or the msgpack
  serialisation of a list of values.\<close>

datatype message = Bytes bytes | Text string | Packed "pyval list"

record vendor_state =
  global_mirrorinfodict :: mirrordict
  global_rawmirrorlist :: message

record vendor_options =
  maxmirrorinfo :: int
  mirrorexpirytime :: int
  checkmirrorip :: bool

text \<open>
  What a request handler finds around it: the clock, whether the non-blocking
  \<^verbatim>\<open>acquire(False)\<close> of the lock succeeds, the content of the manifest file, and the
  library functions \<^verbatim>\<open>msgpack.unpackb\<close> and \<^verbatim>\<open>str\<close>.
\<close>

record vendor_env =
  now :: int
  lock_free :: bool
  manifest_file :: "exn + bytes"
  unpackb :: "bytes \<Rightarrow> exn + pyval"
  pystr :: "pyval \<Rightarrow> string"

definition changed_size :: exn where
  "changed_size = Exc RuntimeError ''dictionary changed size during iteration''"

text \<open>
  The first loop of \<^verbatim>\<open>_check_for_expired_mirrorinfo\<close> iterates over the dict it deletes
  from. A dict iterator remembers the size the dict had when the loop began (\<open>used\<close>)
  and, each time the loop asks for the next key, also the time that ends the loop, raises
  RuntimeError when the size is no longer that.
\<close>

fun expire_loop :: "int \<Rightarrow> int \<Rightarrow> nat \<Rightarrow> string list \<Rightarrow> mirrordict \<Rightarrow> exn option \<times> mirrordict" where
  "expire_loop t expiry used [] d =
     (if length d \<noteq> used then (Some changed_size, d) else (None, d))"
| "expire_loop t expiry used (index # rest) d =
     (if length d \<noteq> used then (Some changed_size, d)
      else
        (case map_of d index of
           None \<Rightarrow> (Some (Exc KeyError index), d)
         | Some entry \<Rightarrow>
             if t > expiry + advertisetime entry
             then expire_loop t expiry used rest (dict_del index d)
             else expire_loop t expiry used rest d))"

definition check_for_expired_mirrorinfo ::
  "vendor_options \<Rightarrow> vendor_env \<Rightarrow> vendor_state \<Rightarrow> exn option \<times> vendor_state" where
  "check_for_expired_mirrorinfo opts env st =
     (if lock_free env
      then
        (case expire_loop (now env) (mirrorexpirytime opts) (length (global_mirrorinfodict st))
                (map fst (global_mirrorinfodict st)) (global_mirrorinfodict st) of
           (Some e, d) \<Rightarrow> (Some e, st\<lparr>global_mirrorinfodict := d\<rparr>)
         | (None, d) \<Rightarrow>
             (None, st\<lparr>global_mirrorinfodict := d, global_rawmirrorlist := Packed (map (\<lambda>kv. mirrorinfo (snd kv)) d)\<rparr>))
      else (None, st))"

text \<open>\<^verbatim>\<open>v[k]\<close> for a string key, and \<^verbatim>\<open>k in v\<close> on a dict.\<close>

definition getitem :: "pyval \<Rightarrow> string \<Rightarrow> exn + pyval" where
  "getitem v k =
     (case v of
        PDict kvs \<Rightarrow> (case map_of kvs (PStr k) of Some x \<Rightarrow> Inr x | None \<Rightarrow> Inl (Exc KeyError k))
      | _ \<Rightarrow> Inl (Exc TypeError ''object is not subscriptable''))"

fun is_dict :: "pyval \<Rightarrow> bool" where
  "is_dict (PDict kvs) = True"
| "is_dict v = False"

fun has_key :: "pyval \<Rightarrow> string \<Rightarrow> bool" where
  "has_key (PDict kvs) k = (map_of kvs (PStr k) \<noteq> None)"
| "has_key v k = False"

text \<open>\<^verbatim>\<open>x + ":"\<close>: defined when \<open>x\<close> is a str, a TypeError for every other value (its text
  names the operand types; it is cut short here).\<close>

fun concat_str :: "pyval \<Rightarrow> string \<Rightarrow> exn + string" where
  "concat_str (PStr s) t = Inr (s @ t)"
| "concat_str v t = Inl (Exc TypeError ''unsupported operand type(s) for +'')"

definition add_mirrorinfo_to_list ::
  "vendor_env \<Rightarrow> pyval \<Rightarrow> vendor_state \<Rightarrow> exn option \<times> vendor_state" where
  "add_mirrorinfo_to_list env thismirrorinfo st =
     (case getitem thismirrorinfo ''ip'' of
        Inl e \<Rightarrow> (Some e, st)
      | Inr ip \<Rightarrow>
          (case concat_str ip '':'' of
             Inl e \<Rightarrow> (Some e, st)
           | Inr prefix \<Rightarrow>
               (case getitem thismirrorinfo ''port'' of
                  Inl e \<Rightarrow> (Some e, st)
                | Inr port \<Rightarrow>
                    (None, st\<lparr>global_mirrorinfodict :=
                       dict_set (prefix @ pystr env port)
                         \<lparr>mirrorinfo = thismirrorinfo, advertisetime = now env\<rparr>
                         (global_mirrorinfodict st)\<rparr>))))"

section \<open>Vendor: the request handler\<close>

text \<open>\<^verbatim>\<open>except (TypeError, ValueError)\<close>.\<close>

definition caught_on_unpack :: "exn \<Rightarrow> bool" where
  "caught_on_unpack e = (exn_class e = TypeError \<or> exn_class e = ValueError)"

definition handle_advertise ::
  "vendor_options \<Rightarrow> vendor_env \<Rightarrow> bytes \<Rightarrow> string \<Rightarrow> vendor_state
     \<Rightarrow> exn option \<times> message list \<times> vendor_state" where
  "handle_advertise opts env mirrorrawdata remoteip st =
     (if int (length mirrorrawdata) > maxmirrorinfo opts
      then (None, [Text ''Error, mirrorinfo too large!''], st)
      else
        (case unpackb env mirrorrawdata of
           Inl e \<Rightarrow>
             (if caught_on_unpack e then (None, [Text ''Error cannot unpack mirrorinfo!''], st)
              else (Some e, [], st))
         | Inr mirrorinfodict \<Rightarrow>
             if \<not> (is_dict mirrorinfodict \<and> has_key mirrorinfodict ''ip''
                   \<and> has_key mirrorinfodict ''port'')
             then (None, [Text ''Error, mirrorinfo has an invalid format.''], st)
             else if checkmirrorip opts \<and> getitem mirrorinfodict ''ip'' \<noteq> Inr (PStr remoteip)
             then (None, [Text ''Error, must provide mirrorinfo from the mirror's IP''], st)
             else
               (case add_mirrorinfo_to_list env mirrorinfodict st of
                  (Some e, st') \<Rightarrow> (Some e, [], st')
                | (None, st') \<Rightarrow> (None, [Text ''OK''], st'))))"

text \<open>
  \<^verbatim>\<open>handle\<close>: the exception that leaves it, the messages sent back on the connection and
  the new state. Writing the log is left out, except where building the log line raises
  (the last branch adds a bytes slice to a str; the text of that TypeError is cut short
  here). The notifications that
  \<^verbatim>\<open>MANIFEST UPDATE\<close> sends to the mirrors go to other connections and are not recorded.
\<close>

definition handle ::
  "vendor_options \<Rightarrow> vendor_env \<Rightarrow> bytes \<Rightarrow> string \<Rightarrow> vendor_state
     \<Rightarrow> exn option \<times> message list \<times> vendor_state" where
  "handle opts env requeststring remoteip st =
     (if requeststring = ''GET MANIFEST'' then
        (case manifest_file env of
           Inl e \<Rightarrow> (Some e, [], st)
         | Inr rawmanifestdata \<Rightarrow> (None, [Bytes rawmanifestdata], st))
      else if requeststring = ''MANIFEST UPDATE'' then
        (case manifest_file env of
           Inl e \<Rightarrow> (Some e, [], st)
         | Inr rawmanifestdata \<Rightarrow> (None, [], st))
      else if requeststring = ''GET MIRRORLIST'' then
        (case check_for_expired_mirrorinfo opts env st of
           (Some e, st') \<Rightarrow> (Some e, [], st')
         | (None, st') \<Rightarrow> (None, [global_rawmirrorlist st'], st'))
      else if startswith requeststring ''MIRRORADVERTISE'' then
        handle_advertise opts env (drop (length ''MIRRORADVERTISE'') requeststring) remoteip st
      else if requeststring = ''HELLO'' then (None, [Text ''VENDORHI!''], st)
      else (Some (Exc TypeError ''can only concatenate str to str''), [], st))"

section \<open>The vocabulary of the properties\<close>

text \<open>A list without its repetitions, every element at the place of its first occurrence.\<close>

fun first_occurrences :: "int list \<Rightarrow> int list" where
  "first_occurrences [] = []"
| "first_occurrences (x # xs) = x # filter (\<lambda>y. y \<noteq> x) (first_occurrences xs)"

text \<open>The block list the library gives for a file, empty when the lookup raises.\<close>

definition blocks_for :: "env \<Rightarrow> manifest \<Rightarrow> string \<Rightarrow> int list" where
  "blocks_for E m f = (case get_blocklist_for_file E f m of Inl e \<Rightarrow> [] | Inr bs \<Rightarrow> bs)"

text \<open>The hash the manifest records for a file name: that of the first entry with the name.\<close>

definition manifest_hash :: "manifest \<Rightarrow> string \<Rightarrow> bytes option" where
  "manifest_hash m f = map_of (map (\<lambda>fi. (filename fi, hash fi)) (fileinfolist m)) f"

section \<open>Concrete inputs\<close>

text \<open>A worker with one queued request whose send fails with a reset connection.\<close>

definition conn_reset :: exn where
  "conn_reset = Exc OSError ''[Errno 104] Connection reset by peer''"

definition one_request :: xorrequest where
  "one_request = \<lparr>sock = 3, reqnum = 0, payload = ''x'', rqtype = 0\<rparr>"

definition idle :: worker_state where
  "idle = \<lparr>failed = [], stdout = []\<rparr>"

text \<open>
  A release of two files in eight blocks. The recorded hash of \<open>a\<close> is the hash of its
  data, that of \<open>b\<close> is not. The vendor serves the same manifest that is on disk.
\<close>

definition listing :: "manifest \<Rightarrow> string list" where
  "listing m = map filename (fileinfolist m)"

definition small_manifest :: manifest where
  "small_manifest = \<lparr>blockcount = 8, blocksize = 64, hashalgorithm = ''sha256-raw'',
     vendorhostname = ''vendor'', vendorport = 62293,
     fileinfolist = [\<lparr>filename = ''a'', hash = ''ha''\<rparr>, \<lparr>filename = ''b'', hash = ''hb''\<rparr>]\<rparr>"

definition blocks_of :: "string \<Rightarrow> int list" where
  "blocks_of f = (if f = ''a'' then [1, 2] else if f = ''b'' then [5, 6, 1] else [])"

definition small_env :: env where
  "small_env = \<lparr>
     retrieve_rawmanifest = (\<lambda>a. Inr ''raw''),
     parse_manifest = (\<lambda>raw. if raw = ''raw'' then Inr small_manifest else Inl (Exc ValueError ''bad manifest'')),
     get_filenames_in_release = listing,
     get_blocklist_for_file = (\<lambda>f m. Inr (blocks_of f)),
     extract_file_from_blockdict = (\<lambda>f m d. Inr (''data of '' @ f)),
     find_hash = (\<lambda>d alg. Inr (if d = ''data of a'' then ''ha'' else ''??'')),
     read_file = (\<lambda>n. if n = ''manifest.dat'' then Inr ''raw'' else Inl (Exc OSError ''No such file'')),
     run_requestor = (\<lambda>opts bs m. Inr (\<lambda>b. ''block''))\<rparr>"

text \<open>The same world with a vendor that serves bytes that do not parse.\<close>

definition garbage_env :: env where
  "garbage_env = small_env\<lparr>retrieve_rawmanifest := (\<lambda>a. Inr ''garbage'')\<rparr>"

text \<open>The defaults of the client's option parser.\<close>

definition default_options :: options where
  "default_options = \<lparr>retrievemanifestfrom = [], printfiles = False, vendorip = None,
     manifestfilename = ''manifest.dat'', numberofmirrors = 2, redundancy = None,
     rng = False, parallel = False, batch = False, timing = False, comment = [],
     filestoretrieve = []\<rparr>"

text \<open>
  A vendor with its default options at time 1000, holding mirrors that advertised at
  times 100 and 200. The payload \<open>odd\<close> stands for the msgpack bytes of a dict whose
  \<open>ip\<close> is the integer 1; \<^verbatim>\<open>str\<close> is not reached in the evaluations below.
\<close>

definition mirror1 :: pyval where
  "mirror1 = PDict [(PStr ''ip'', PStr ''10.0.0.1''), (PStr ''port'', PInt 62294)]"

definition mirror2 :: pyval where
  "mirror2 = PDict [(PStr ''ip'', PStr ''10.0.0.2''), (PStr ''port'', PInt 62294)]"

definition odd_mirror :: pyval where
  "odd_mirror = PDict [(PStr ''ip'', PInt 1), (PStr ''port'', PInt 2)]"

definition vendor_defaults :: vendor_options where
  "vendor_defaults = \<lparr>maxmirrorinfo = 10240, mirrorexpirytime = 300, checkmirrorip = False\<rparr>"

definition at_1000 :: vendor_env where
  "at_1000 = \<lparr>now = 1000, lock_free = True, manifest_file = Inr ''raw'',
     unpackb = (\<lambda>b. if b = ''odd'' then Inr odd_mirror else Inl (Exc ValueError ''unpack failed'')),
     pystr = (\<lambda>v. ''?'')\<rparr>"

definition one_stale :: vendor_state where
  "one_stale = \<lparr>global_mirrorinfodict =
       [(''10.0.0.1:62294'', \<lparr>mirrorinfo = mirror1, advertisetime = 100\<rparr>)],
     global_rawmirrorlist = Packed [mirror1]\<rparr>"

definition two_stale :: vendor_state where
  "two_stale = \<lparr>global_mirrorinfodict =
       [(''10.0.0.1:62294'', \<lparr>mirrorinfo = mirror1, advertisetime = 100\<rparr>),
        (''10.0.0.2:62294'', \<lparr>mirrorinfo = mirror2, advertisetime = 200\<rparr>)],
     global_rawmirrorlist = Packed [mirror1, mirror2]\<rparr>"

section \<open>The worker threads\<close>

lemma socked_not_in_conn_reset: "\<not> str_in ''socked'' (str_exn conn_reset)"
  by (simp add: conn_reset_def)

lemma on_exception_notifies_iff:
  "fst (on_exception e rq st) = None \<longleftrightarrow> str_in ''socked'' (str_exn e)"
  by (simp add: on_exception_def)

lemma on_exception_reraises:
  "\<not> str_in ''socked'' (str_exn e) \<Longrightarrow> on_exception e rq st = (Some e, st)"
  by (simp add: on_exception_def)

text \<open>
  C2. A send that raises a socket error whose text is
  \<^verbatim>\<open>[Errno 104] Connection reset by peer\<close> is not reported through
  \<^verbatim>\<open>notify_failure\<close>: both helpers raise it again, with nothing recorded as failed.
  The handler looks for the letters \<open>socked\<close> in the text of the exception.
\<close>

theorem socket_error_is_reraised:
  "request_helper (\<lambda>k s b. Some conn_reset) [one_request] idle = (Some conn_reset, idle)
   \<and> request_helper_chunked (\<lambda>k s b. Some conn_reset) [one_request] idle = (Some conn_reset, idle)
   \<and> exn_class conn_reset = OSError"
  by (simp add: request_helper_def request_helper_chunked_def on_exception_def
      socked_not_in_conn_reset) (simp add: conn_reset_def)

section \<open>The chunk lengths\<close>

text \<open>When 8k divides the block count the two quotients are whole and the lengths are
  those of integer division.\<close>

lemma chunk_lengths_when_divisible:
  assumes "k > 0" and "(8 * k) dvd n"
  shows "chunk_lengths n k
     = Inr (of_int ((n div 8) div k), of_int (bits_to_bytes n - (k - 1) * ((n div 8) div k)))"
proof -
  from assms(2) obtain q where n: "n = 8 * k * q" by (auto simp: dvd_def)
  from assms(1) have d: "(n div 8) div k = q" by (simp add: n mult.assoc)
  from assms(1) have c: "(of_int n / 8) / (of_int k :: rat) = of_int q"
    by (simp add: n)
  from assms(1) show ?thesis
    unfolding chunk_lengths_def Let_def c d by simp
qed

text \<open>
  C1. At block count 100 and 4 mirrors (100 is at least 32) the client computes a chunk
  length of 25/8 bytes and a last chunk length of 29/8 bytes, not the whole numbers
  3 = (100 div 8) div 4 and 4 = 13 - 3 * 3.
\<close>

theorem chunk_lengths_not_integral:
  "chunk_lengths 100 4 = Inr (25 / 8, 29 / 8)
   \<and> (25 / 8 :: rat) \<noteq> of_int ((100 div 8) div 4)
   \<and> (29 / 8 :: rat) \<noteq> of_int (bits_to_bytes 100 - (4 - 1) * ((100 div 8) div 4))"
  by (simp add: chunk_lengths_def bits_to_bytes_def Let_def)

section \<open>The blocks that are requested\<close>

lemma set_first_occurrences: "set (first_occurrences xs) = set xs"
  by (induction xs) auto

lemma distinct_first_occurrences: "distinct (first_occurrences xs)"
  by (induction xs) (auto simp: set_first_occurrences)

lemma add_blocks_append: "add_blocks n (xs @ ys) = add_blocks (add_blocks n xs) ys"
  by (induction xs arbitrary: n) auto

lemma add_blocks_first_occurrences:
  "add_blocks n bs = n @ filter (\<lambda>b. b \<notin> set n) (first_occurrences bs)"
proof (induction bs arbitrary: n)
  case Nil
  then show ?case by simp
next
  case (Cons b bs)
  show ?case
  proof (cases "b \<in> set n")
    case True
    have "filter (\<lambda>y. y \<notin> set n) (filter (\<lambda>y. y \<noteq> b) (first_occurrences bs))
        = filter (\<lambda>y. y \<notin> set n) (first_occurrences bs)"
      unfolding filter_filter using True by (intro filter_cong) auto
    with True Cons.IH [of n] show ?thesis by (simp del: filter_filter)
  next
    case False
    have "filter (\<lambda>y. y \<notin> set (n @ [b])) (first_occurrences bs)
        = filter (\<lambda>y. y \<notin> set n) (filter (\<lambda>y. y \<noteq> b) (first_occurrences bs))"
      unfolding filter_filter by (intro filter_cong) auto
    with False Cons.IH [of "n @ [b]"] show ?thesis by (simp del: filter_filter)
  qed
qed

lemma needed_blocks_add_blocks:
  "needed_blocks E m files n = Inr bs \<Longrightarrow>
     bs = add_blocks n (concat (map (blocks_for E m) files))
     \<and> (\<forall>f\<in>set files. get_blocklist_for_file E f m = Inr (blocks_for E m f))"
proof (induction files arbitrary: n)
  case Nil
  then show ?case by simp
next
  case (Cons f fs)
  show ?case
  proof (cases "get_blocklist_for_file E f m")
    case (Inl e)
    with Cons.prems show ?thesis by simp
  next
    case (Inr these)
    then have bf: "blocks_for E m f = these" by (simp add: blocks_for_def)
    from Cons.prems Inr have "needed_blocks E m fs (add_blocks n these) = Inr bs" by simp
    from Cons.IH [OF this] Inr bf show ?thesis by (simp add: add_blocks_append)
  qed
qed

text \<open>
  C4, as the code has it. When every block list lookup succeeds, the blocks handed to the
  retrieval are the union of the files' block lists without repetition, each block at
  the place of its first occurrence (files in the order requested, blocks in the order
  of each file's list).
\<close>

theorem neededblocks_first_occurrence_union:
  assumes "needed_blocks E m files [] = Inr bs"
  shows "distinct bs
    \<and> set bs = (\<Union>f\<in>set files. set (blocks_for E m f))
    \<and> (\<forall>f\<in>set files. get_blocklist_for_file E f m = Inr (blocks_for E m f))
    \<and> bs = first_occurrences (concat (map (blocks_for E m) files))
    \<and> (\<exists>evs. snd (request_files_from_mirrors E opts files m) = MirrorRetrieval bs # evs)"
proof -
  from needed_blocks_add_blocks [OF assms]
  have bs: "bs = add_blocks [] (concat (map (blocks_for E m) files))"
    and ok: "\<forall>f\<in>set files. get_blocklist_for_file E f m = Inr (blocks_for E m f)"
    by simp_all
  from bs have fo: "bs = first_occurrences (concat (map (blocks_for E m) files))"
    by (simp add: add_blocks_first_occurrences)
  have d: "distinct bs" by (simp add: fo distinct_first_occurrences)
  have s: "set bs = (\<Union>f\<in>set files. set (blocks_for E m f))"
    by (simp add: fo set_first_occurrences)
  have ev: "\<exists>evs. snd (request_files_from_mirrors E opts files m) = MirrorRetrieval bs # evs"
    using assms
    by (simp add: request_files_from_mirrors_def request_blocks_from_mirrors_def
        split: sum.splits prod.splits)
  from d s ok fo ev show ?thesis by blast
qed

text \<open>The theorem at the request for \<open>b\<close> and then \<open>a\<close>.\<close>

theorem neededblocks_first_occurrence_union_witness:
  "distinct [5, 6, 1, 2 :: int]
   \<and> [5, 6, 1, 2] = first_occurrences (concat (map (blocks_for small_env small_manifest) [''b'', ''a'']))
   \<and> set [5, 6, 1, 2] = (\<Union>f\<in>set [''b'', ''a'']. set (blocks_for small_env small_manifest f))"
proof -
  have h: "needed_blocks small_env small_manifest [''b'', ''a''] [] = Inr [5, 6, 1, 2]"
    by (simp add: small_env_def blocks_of_def)
  from neededblocks_first_occurrence_union [OF h] show ?thesis by blast
qed

text \<open>
  C4 as stated fails: requesting \<open>b\<close> (blocks 5, 6, 1) before \<open>a\<close> (blocks 1, 2) gives
  the blocks in the order 5, 6, 1, 2, which is not ascending.
\<close>

theorem neededblocks_not_sorted:
  "needed_blocks small_env small_manifest [''b'', ''a''] [] = Inr [5, 6, 1, 2]
   \<and> \<not> sorted [5, 6, 1, 2 :: int]"
  by (simp add: small_env_def blocks_of_def)

section \<open>Hash checks before files are written\<close>

lemma check_hash_None_iff:
  "check_hash fis f h = None \<longleftrightarrow> map_of (map (\<lambda>fi. (filename fi, hash fi)) fis) f = Some h"
  by (induction fis) auto

lemma check_hash_class: "check_hash fis f h = Some e \<Longrightarrow> exn_class e = PlainException"
  by (induction fis) (auto split: if_splits)

lemma check_file_Inr_iff:
  "check_file E m bd f = Inr data \<longleftrightarrow>
     extract_file_from_blockdict E f m bd = Inr data
     \<and> (\<exists>h. find_hash E data (hashalgorithm m) = Inr h \<and> manifest_hash m f = Some h)"
proof (cases "extract_file_from_blockdict E f m bd")
  case (Inl e)
  then show ?thesis by (simp add: check_file_def)
next
  case ex: (Inr filedata)
  show ?thesis
  proof (cases "find_hash E filedata (hashalgorithm m)")
    case (Inl e)
    with ex show ?thesis by (auto simp: check_file_def)
  next
    case (Inr h)
    show ?thesis
    proof (cases "check_hash (fileinfolist m) f h")
      case None
      with ex Inr show ?thesis
        by (auto simp: check_file_def manifest_hash_def check_hash_None_iff [symmetric])
    next
      case (Some e)
      then have "manifest_hash m f \<noteq> Some h"
        by (simp add: manifest_hash_def check_hash_None_iff [symmetric])
      with ex Inr Some show ?thesis by (auto simp: check_file_def)
    qed
  qed
qed

lemma write_files_written:
  "FileWrite name data \<in> set (snd (write_files E m bd files)) \<Longrightarrow>
     \<exists>f\<in>set files. name = basename f \<and> check_file E m bd f = Inr data"
  by (induction files) (auto split: sum.splits prod.splits)

lemma write_files_abort:
  "fst (write_files E m bd pre) = None \<Longrightarrow> check_file E m bd f = Inl e \<Longrightarrow>
     write_files E m bd (pre @ f # post) = (Some e, snd (write_files E m bd pre))"
  by (induction pre) (auto split: sum.splits prod.splits)

text \<open>
  C5. Once the blocks are retrieved: a file is written only with the data extracted for
  a requested file whose hash, under the manifest's algorithm, is the hash the manifest
  records for it; a file whose hash differs from the recorded one makes the check raise;
  and when the check of a file raises after the files before it passed, the function
  raises that exception and has written only the files before it.
\<close>

theorem files_written_only_after_hash_check:
  assumes nb: "needed_blocks E m files [] = Inr nb"
    and bd: "fst (request_blocks_from_mirrors E opts nb m) = Inr bd"
  shows "(\<forall>name data. FileWrite name data \<in> set (snd (request_files_from_mirrors E opts files m)) \<longrightarrow>
            (\<exists>f\<in>set files. name = basename f
               \<and> extract_file_from_blockdict E f m bd = Inr data
               \<and> (\<exists>h. find_hash E data (hashalgorithm m) = Inr h \<and> manifest_hash m f = Some h)))
     \<and> (\<forall>f data h. extract_file_from_blockdict E f m bd = Inr data
            \<and> find_hash E data (hashalgorithm m) = Inr h \<and> manifest_hash m f \<noteq> Some h \<longrightarrow>
            (\<exists>e. check_file E m bd f = Inl e \<and> exn_class e = PlainException))
     \<and> (\<forall>pre f post e. files = pre @ f # post \<and> fst (write_files E m bd pre) = None
            \<and> check_file E m bd f = Inl e \<longrightarrow>
            request_files_from_mirrors E opts files m
              = (Some e, MirrorRetrieval nb # snd (write_files E m bd pre)))"
proof -
  from bd have rb: "request_blocks_from_mirrors E opts nb m = (Inr bd, [MirrorRetrieval nb])"
    by (auto simp: request_blocks_from_mirrors_def split: sum.splits)
  have rf: "request_files_from_mirrors E opts files m
      = (fst (write_files E m bd files), MirrorRetrieval nb # snd (write_files E m bd files))"
    by (simp add: request_files_from_mirrors_def nb rb split: prod.splits)
  have a: "\<forall>name data. FileWrite name data \<in> set (snd (request_files_from_mirrors E opts files m)) \<longrightarrow>
            (\<exists>f\<in>set files. name = basename f
               \<and> extract_file_from_blockdict E f m bd = Inr data
               \<and> (\<exists>h. find_hash E data (hashalgorithm m) = Inr h \<and> manifest_hash m f = Some h))"
    using write_files_written [of _ _ E m bd files]
    by (simp add: rf check_file_Inr_iff)
  have b: "\<forall>f data h. extract_file_from_blockdict E f m bd = Inr data
            \<and> find_hash E data (hashalgorithm m) = Inr h \<and> manifest_hash m f \<noteq> Some h \<longrightarrow>
            (\<exists>e. check_file E m bd f = Inl e \<and> exn_class e = PlainException)"
  proof (intro allI impI)
    fix f data h
    assume h: "extract_file_from_blockdict E f m bd = Inr data
            \<and> find_hash E data (hashalgorithm m) = Inr h \<and> manifest_hash m f \<noteq> Some h"
    then have "check_hash (fileinfolist m) f h \<noteq> None"
      by (simp add: check_hash_None_iff manifest_hash_def)
    then obtain e where e: "check_hash (fileinfolist m) f h = Some e" by auto
    with h have "check_file E m bd f = Inl e" by (simp add: check_file_def)
    with check_hash_class [OF e]
    show "\<exists>e. check_file E m bd f = Inl e \<and> exn_class e = PlainException" by simp
  qed
  have c: "\<forall>pre f post e. files = pre @ f # post \<and> fst (write_files E m bd pre) = None
            \<and> check_file E m bd f = Inl e \<longrightarrow>
            request_files_from_mirrors E opts files m
              = (Some e, MirrorRetrieval nb # snd (write_files E m bd pre))"
  proof (intro allI impI)
    fix pre f post e
    assume h: "files = pre @ f # post \<and> fst (write_files E m bd pre) = None
            \<and> check_file E m bd f = Inl e"
    then have "write_files E m bd files = (Some e, snd (write_files E m bd pre))"
      using write_files_abort [of E m bd pre f e post] by simp
    then show "request_files_from_mirrors E opts files m
              = (Some e, MirrorRetrieval nb # snd (write_files E m bd pre))"
      by (simp add: rf)
  qed
  from a b c show ?thesis by blast
qed

text \<open>The theorem at the request for \<open>a\<close>, whose hash matches, and \<open>b\<close>, whose hash does
  not: \<open>a\<close> is written, \<open>b\<close> is not, and the exception is raised.\<close>

theorem files_written_only_after_hash_check_witness:
  "request_files_from_mirrors small_env default_options [''a'', ''b''] small_manifest
     = (Some (Exc PlainException
          ''Corrupt manifest has incorrect file hash despite passing block hash checks!''),
        [MirrorRetrieval [1, 2, 5, 6], FileWrite ''a'' ''data of a'', Print (Wrote ''a'')])"
proof -
  let ?bd = "fill_retdict (\<lambda>b. ''block'') [1, 2, 5, 6] Map.empty"
  have nb: "needed_blocks small_env small_manifest [''a'', ''b''] [] = Inr [1, 2, 5, 6]"
    by (simp add: small_env_def blocks_of_def)
  have bd: "fst (request_blocks_from_mirrors small_env default_options [1, 2, 5, 6] small_manifest)
      = Inr ?bd"
    by (simp add: request_blocks_from_mirrors_def small_env_def)
  have a: "check_file small_env small_manifest ?bd ''a'' = Inr ''data of a''"
    by (simp add: check_file_def small_env_def small_manifest_def)
  have b: "check_file small_env small_manifest ?bd ''b'' = Inl (Exc PlainException
          ''Corrupt manifest has incorrect file hash despite passing block hash checks!'')"
    by (simp add: check_file_def small_env_def small_manifest_def)
  have w: "write_files small_env small_manifest ?bd [''a'']
      = (None, [FileWrite ''a'' ''data of a'', Print (Wrote ''a'')])"
    by (simp add: check_file_def small_env_def small_manifest_def basename_def)
  from files_written_only_after_hash_check [OF nb bd] a b w
  have "request_files_from_mirrors small_env default_options ([''a''] @ ''b'' # []) small_manifest
      = (Some (Exc PlainException
          ''Corrupt manifest has incorrect file hash despite passing block hash checks!''),
         MirrorRetrieval [1, 2, 5, 6] # snd (write_files small_env small_manifest ?bd [''a'']))"
    by (metis append_Cons append_Nil fst_conv)
  with w show ?thesis by simp
qed

section \<open>Option parsing and main\<close>

lemma load_manifest_no_retrieval: "filter is_retrieval (snd (load_manifest E opts)) = []"
  by (simp add: load_manifest_def split: sum.splits)

lemma load_manifest_local_no_network:
  "retrievemanifestfrom opts = [] \<Longrightarrow> filter is_network (snd (load_manifest E opts)) = []"
  by (simp add: load_manifest_def split: sum.splits)

lemma load_manifest_cong:
  "retrievemanifestfrom a = retrievemanifestfrom b \<Longrightarrow> manifestfilename a = manifestfilename b
     \<Longrightarrow> load_manifest E a = load_manifest E b"
  by (auto simp: load_manifest_def split: sum.splits)

lemma parse_options_keeps:
  "parse_options parsed args = (c, opts, evs) \<Longrightarrow>
     numberofmirrors opts = numberofmirrors parsed \<and> redundancy opts = redundancy parsed
     \<and> retrievemanifestfrom opts = retrievemanifestfrom parsed
     \<and> manifestfilename opts = manifestfilename parsed \<and> timing opts = timing parsed
     \<and> parallel opts = parallel parsed \<and> (parallel opts \<longrightarrow> rng opts)"
  by (auto simp: parse_options_def Let_def split: if_splits)

lemma parse_options_passed:
  "parse_options parsed args = (None, opts, evs) \<Longrightarrow> evs = [] \<and> filestoretrieve opts = args"
  by (auto simp: parse_options_def Let_def split: if_splits)

lemma parse_options_bad:
  assumes "numberofmirrors parsed < 2
     \<or> (\<exists>r. redundancy parsed = Some r \<and> (r < 2 \<or> r > numberofmirrors parsed))
     \<or> ((rng parsed \<or> parallel parsed) \<and> redundancy parsed = None)"
  shows "\<exists>opts m. parse_options parsed args = (Some 1, opts, [Print m])"
  using assms by (auto simp: parse_options_def Let_def)

lemma main_low_blockcount:
  assumes "load_manifest E opts = (Inr m, evs)"
    and "redundancy opts \<noteq> None" and "blockcount m < 8 * numberofmirrors opts"
  shows "main E opts = (Exited 1, evs @ [Print BlockcountTooLow])"
  using assms by (simp add: main_def main_checked_def Let_def mult.commute)

text \<open>
  C3, as the code has it. With fewer than two mirrors, a redundancy below 2 or above the
  number of mirrors, or rng or parallel without a redundancy, the client exits with
  code 1 out of \<^verbatim>\<open>parse_options\<close>, before any network traffic. With a redundancy and a
  manifest of fewer than 8k blocks it exits with code 1 before any block retrieval; the
  manifest has been obtained by then, so there has been no network traffic only when the
  manifest is read from disk.
\<close>

theorem bad_parameters_exit_1:
  assumes "(numberofmirrors parsed < 2
        \<or> (\<exists>r. redundancy parsed = Some r \<and> (r < 2 \<or> r > numberofmirrors parsed))
        \<or> ((rng parsed \<or> parallel parsed) \<and> redundancy parsed = None))
     \<or> (fst (parse_options parsed args) = None
        \<and> fst (load_manifest E parsed) = Inr m
        \<and> redundancy parsed \<noteq> None
        \<and> blockcount m < 8 * numberofmirrors parsed)"
  shows "fst (client E parsed args) = Exited 1
     \<and> filter is_retrieval (snd (client E parsed args)) = []
     \<and> (fst (parse_options parsed args) \<noteq> None \<or> retrievemanifestfrom parsed = []
          \<longrightarrow> filter is_network (snd (client E parsed args)) = [])"
proof -
  consider
    (bad) "numberofmirrors parsed < 2
        \<or> (\<exists>r. redundancy parsed = Some r \<and> (r < 2 \<or> r > numberofmirrors parsed))
        \<or> ((rng parsed \<or> parallel parsed) \<and> redundancy parsed = None)"
  | (low) "fst (parse_options parsed args) = None
        \<and> fst (load_manifest E parsed) = Inr m
        \<and> redundancy parsed \<noteq> None
        \<and> blockcount m < 8 * numberofmirrors parsed"
    using assms by blast
  then show ?thesis
  proof cases
    case bad
    from parse_options_bad [OF this, of args]
    obtain opts msg where "parse_options parsed args = (Some 1, opts, [Print msg])" by blast
    then show ?thesis by (simp add: client_def)
  next
    case low
  then obtain opts evs where po: "parse_options parsed args = (None, opts, evs)"
    by (cases "parse_options parsed args") auto
  from parse_options_passed [OF po] have evs: "evs = []" by simp
  note keep = parse_options_keeps [OF po]
  from keep have lm: "load_manifest E opts = load_manifest E parsed"
    by (intro load_manifest_cong) simp_all
  obtain evs1 where l1: "load_manifest E parsed = (Inr m, evs1)"
    using low by (cases "load_manifest E parsed") auto
  from low keep have red: "redundancy opts \<noteq> None"
    and bc: "blockcount m < 8 * numberofmirrors opts" by simp_all
  from lm l1 have "load_manifest E opts = (Inr m, evs1)" by simp
  from main_low_blockcount [OF this red bc]
  have mn: "main E opts = (Exited 1, evs1 @ [Print BlockcountTooLow])" .
  have cl: "client E parsed args
      = (Exited 1, Print Banner # (if timing opts then [TimingLog] else []) @ evs1 @ [Print BlockcountTooLow])"
    by (simp add: client_def po mn evs)
  have r: "filter is_retrieval evs1 = []"
    using load_manifest_no_retrieval [of E parsed] by (simp add: l1)
  have n: "retrievemanifestfrom parsed = [] \<Longrightarrow> filter is_network evs1 = []"
    using load_manifest_local_no_network [of parsed E] by (simp add: l1)
  from r n show ?thesis by (simp add: cl po)
  qed
qed

text \<open>The theorem at one mirror, and at redundancy 2 with the eight-block manifest on
  disk.\<close>

theorem bad_parameters_exit_1_witness:
  "fst (client small_env (default_options\<lparr>numberofmirrors := 1\<rparr>) [''a'']) = Exited 1
   \<and> filter is_network (snd (client small_env (default_options\<lparr>numberofmirrors := 1\<rparr>) [''a''])) = []
   \<and> fst (client small_env (default_options\<lparr>redundancy := Some 2\<rparr>) [''a'']) = Exited 1
   \<and> filter is_network (snd (client small_env (default_options\<lparr>redundancy := Some 2\<rparr>) [''a''])) = []"
proof -
  have h1: "numberofmirrors (default_options\<lparr>numberofmirrors := 1\<rparr>) < 2"
    by (simp add: default_options_def)
  have p1: "fst (parse_options (default_options\<lparr>numberofmirrors := 1\<rparr>) [''a'']) \<noteq> None"
    by (simp add: parse_options_def default_options_def)
  have h2: "fst (parse_options (default_options\<lparr>redundancy := Some 2\<rparr>) [''a'']) = None
     \<and> fst (load_manifest small_env (default_options\<lparr>redundancy := Some 2\<rparr>)) = Inr small_manifest
     \<and> redundancy (default_options\<lparr>redundancy := Some 2\<rparr>) \<noteq> None
     \<and> blockcount small_manifest < 8 * numberofmirrors (default_options\<lparr>redundancy := Some 2\<rparr>)"
    by (simp add: parse_options_def load_manifest_def default_options_def small_env_def
        small_manifest_def)
  have r2: "retrievemanifestfrom (default_options\<lparr>redundancy := Some 2\<rparr>) = []"
    by (simp add: default_options_def)
  from bad_parameters_exit_1 [of "default_options\<lparr>numberofmirrors := 1\<rparr>" "[''a'']" small_env small_manifest]
    h1 p1
  have a: "fst (client small_env (default_options\<lparr>numberofmirrors := 1\<rparr>) [''a'']) = Exited 1
   \<and> filter is_network (snd (client small_env (default_options\<lparr>numberofmirrors := 1\<rparr>) [''a''])) = []"
    by blast
  from bad_parameters_exit_1 [of "default_options\<lparr>redundancy := Some 2\<rparr>" "[''a'']" small_env small_manifest]
    h2 r2
  have b: "fst (client small_env (default_options\<lparr>redundancy := Some 2\<rparr>) [''a'']) = Exited 1
   \<and> filter is_network (snd (client small_env (default_options\<lparr>redundancy := Some 2\<rparr>) [''a''])) = []"
    by blast
  from a b show ?thesis by blast
qed

text \<open>
  C3 as stated fails: with redundancy 2, two mirrors, the manifest requested from the
  vendor and eight blocks in it, the client exits with code 1 after it has contacted the
  vendor and written the manifest file.
\<close>

theorem low_blockcount_after_vendor_contact:
  "redundancy (default_options\<lparr>redundancy := Some 2, retrievemanifestfrom := ''vendor:62293''\<rparr>) = Some 2
   \<and> blockcount small_manifest < 8 * numberofmirrors default_options
   \<and> client small_env
        (default_options\<lparr>redundancy := Some 2, retrievemanifestfrom := ''vendor:62293''\<rparr>) [''a'']
      = (Exited 1, [Print Banner, VendorManifestRequest ''vendor:62293'',
           FileWrite ''manifest.dat'' ''raw'', Print BlockcountTooLow])
   \<and> is_network (VendorManifestRequest ''vendor:62293'')"
  by (simp add: client_def parse_options_def main_def load_manifest_def main_checked_def
      small_env_def default_options_def small_manifest_def)

lemma first_unlisted_Some:
  "\<exists>f\<in>set fs. f \<notin> set filelist \<Longrightarrow>
     \<exists>f. first_unlisted fs filelist = Some f \<and> f \<in> set fs \<and> f \<notin> set filelist"
  by (induction fs) auto

text \<open>
  C6, as the code has it. When the manifest is loaded and the block count check for chunk
  mode does not fire, a requested file that the release does not list makes \<^verbatim>\<open>main\<close>
  print that the file is not listed and exit with code 2, without any block retrieval.
\<close>

theorem missing_file_exit_2:
  assumes "load_manifest E opts = (Inr m, evs)"
    and "\<not> (blockcount m < numberofmirrors opts * 8 \<and> redundancy opts \<noteq> None)"
    and "\<exists>f\<in>set (filestoretrieve opts). f \<notin> set (get_filenames_in_release E m)"
  shows "\<exists>f. f \<in> set (filestoretrieve opts) \<and> f \<notin> set (get_filenames_in_release E m)
     \<and> fst (main E opts) = Exited 2
     \<and> last (snd (main E opts)) = Print (FileNotListed f)
     \<and> filter is_retrieval (snd (main E opts)) = []"
proof -
  from first_unlisted_Some [OF assms(3)] obtain f where
    f: "first_unlisted (filestoretrieve opts) (get_filenames_in_release E m) = Some f"
    and fin: "f \<in> set (filestoretrieve opts)" and fout: "f \<notin> set (get_filenames_in_release E m)"
    by blast
  have r: "filter is_retrieval evs = []"
    using load_manifest_no_retrieval [of E opts] by (simp add: assms(1))
  have "main E opts = (Exited 2, evs
      @ ((if printfiles opts
          then [Print (ManifestInfo (blockcount m) (blocksize m) (get_filenames_in_release E m))]
          else []) @ (if timing opts then [TimingLog] else []))
      @ [Print (FileNotListed f)])"
    using assms(2) by (simp add: main_def main_checked_def Let_def assms(1) f)
  with fin fout r show ?thesis by auto
qed

text \<open>The theorem at the request for \<open>a\<close> and the unlisted \<open>zz\<close>.\<close>

theorem missing_file_exit_2_witness:
  "\<exists>f. f \<in> set [''a'', ''zz''] \<and> f \<notin> set (listing small_manifest)
     \<and> fst (main small_env (default_options\<lparr>filestoretrieve := [''a'', ''zz'']\<rparr>)) = Exited 2
     \<and> last (snd (main small_env (default_options\<lparr>filestoretrieve := [''a'', ''zz'']\<rparr>)))
         = Print (FileNotListed f)
     \<and> filter is_retrieval (snd (main small_env (default_options\<lparr>filestoretrieve := [''a'', ''zz'']\<rparr>))) = []"
proof -
  let ?o = "default_options\<lparr>filestoretrieve := [''a'', ''zz'']\<rparr>"
  have h1: "load_manifest small_env ?o = (Inr small_manifest, [FileRead ''manifest.dat''])"
    by (simp add: load_manifest_def small_env_def default_options_def)
  have h2: "\<not> (blockcount small_manifest < numberofmirrors ?o * 8 \<and> redundancy ?o \<noteq> None)"
    by (simp add: default_options_def)
  have h3: "\<exists>f\<in>set (filestoretrieve ?o). f \<notin> set (get_filenames_in_release small_env small_manifest)"
    by (simp add: small_env_def listing_def small_manifest_def)
  have f: "filestoretrieve ?o = [''a'', ''zz'']" by simp
  have g: "get_filenames_in_release small_env small_manifest = listing small_manifest"
    by (simp add: small_env_def)
  from missing_file_exit_2 [OF h1 h2 h3] show ?thesis unfolding f g .
qed

text \<open>
  C6 as stated fails: with redundancy 2 and the eight-block manifest, the request for the
  unlisted \<open>zz\<close> ends with exit code 1 at the block count check.
\<close>

theorem low_blockcount_before_missing_file:
  "main small_env (default_options\<lparr>redundancy := Some 2, filestoretrieve := [''zz'']\<rparr>)
     = (Exited 1, [FileRead ''manifest.dat'', Print BlockcountTooLow])
   \<and> ''zz'' \<notin> set (get_filenames_in_release small_env small_manifest)
   \<and> fst (load_manifest small_env (default_options\<lparr>redundancy := Some 2, filestoretrieve := [''zz'']\<rparr>))
       = Inr small_manifest"
  by (simp add: main_def load_manifest_def main_checked_def
      small_env_def default_options_def small_manifest_def listing_def)

text \<open>
  C7. In the options that \<^verbatim>\<open>parse_options\<close> leaves, parallel implies rng, whatever was
  given on the command line; the parallel flag itself is as given.
\<close>

theorem parallel_forces_rng:
  "(parallel (fst (snd (parse_options parsed args))) \<longrightarrow> rng (fst (snd (parse_options parsed args))))
   \<and> parallel (fst (snd (parse_options parsed args))) = parallel parsed"
  using parse_options_keeps [of parsed args "fst (parse_options parsed args)"
      "fst (snd (parse_options parsed args))" "snd (snd (parse_options parsed args))"]
  by simp

text \<open>The theorem at \<^verbatim>\<open>-p\<close> alone.\<close>

theorem parallel_forces_rng_witness:
  "parallel (fst (snd (parse_options (default_options\<lparr>parallel := True\<rparr>) [''a''])))
   \<and> rng (fst (snd (parse_options (default_options\<lparr>parallel := True\<rparr>) [''a''])))"
  using parallel_forces_rng [of "default_options\<lparr>parallel := True\<rparr>" "[''a'']"]
  by simp

text \<open>
  C10. With a vendor to retrieve the manifest from: when the downloaded bytes do not
  parse, \<^verbatim>\<open>main\<close> raises the parser's exception having done nothing but the download,
  and whatever is written while loading the manifest is the downloaded bytes, which
  parsed, under the manifest file name.
\<close>

theorem manifest_parsed_before_written:
  assumes "retrievemanifestfrom opts \<noteq> []"
  shows "(\<forall>raw e. retrieve_rawmanifest E (retrievemanifestfrom opts) = Inr raw
             \<and> parse_manifest E raw = Inl e \<longrightarrow>
             main E opts = (Raised e, [VendorManifestRequest (retrievemanifestfrom opts)]))
     \<and> (\<forall>n d. FileWrite n d \<in> set (snd (load_manifest E opts)) \<longrightarrow>
             n = manifestfilename opts
             \<and> retrieve_rawmanifest E (retrievemanifestfrom opts) = Inr d
             \<and> (\<exists>m. parse_manifest E d = Inr m))"
  using assms by (auto simp: main_def load_manifest_def split: sum.splits)

text \<open>The theorem at a vendor that serves bytes that do not parse.\<close>

theorem manifest_parsed_before_written_witness:
  "main garbage_env (default_options\<lparr>retrievemanifestfrom := ''vendor:62293''\<rparr>)
     = (Raised (Exc ValueError ''bad manifest''), [VendorManifestRequest ''vendor:62293''])"
proof -
  let ?o = "default_options\<lparr>retrievemanifestfrom := ''vendor:62293''\<rparr>"
  have h: "retrievemanifestfrom ?o \<noteq> []" by simp
  have r: "retrieve_rawmanifest garbage_env (retrievemanifestfrom ?o) = Inr ''garbage''"
    by (simp add: garbage_env_def)
  have p: "parse_manifest garbage_env ''garbage'' = Inl (Exc ValueError ''bad manifest'')"
    by (simp add: garbage_env_def small_env_def)
  from manifest_parsed_before_written [OF h, of garbage_env] r p
  have "main garbage_env ?o = (Raised (Exc ValueError ''bad manifest''),
      [VendorManifestRequest (retrievemanifestfrom ?o)])"
    by blast
  then show ?thesis by simp
qed

section \<open>The vendor\<close>

lemma expire_loop_size_changed:
  "length d \<noteq> used \<Longrightarrow> expire_loop t x used ks d = (Some changed_size, d)"
  by (cases ks) simp_all

lemma length_dict_del: "k \<in> fst ` set d \<Longrightarrow> length (dict_del k d) < length d"
  by (induction d) force+

lemma expire_loop_none_expired:
  assumes "set ks \<subseteq> fst ` set d"
    and "\<forall>k e. k \<in> set ks \<and> map_of d k = Some e \<longrightarrow> \<not> t > x + advertisetime e"
  shows "expire_loop t x (length d) ks d = (None, d)"
  using assms
proof (induction ks)
  case Nil
  then show ?case by simp
next
  case (Cons k ks)
  from Cons.prems(1) have "map_of d k \<noteq> None" by (simp add: map_of_eq_None_iff)
  then obtain e where e: "map_of d k = Some e" by auto
  with Cons.prems(2) have fresh: "\<not> t > x + advertisetime e" by auto
  from Cons.prems have "expire_loop t x (length d) ks d = (None, d)"
    by (intro Cons.IH) auto
  with e fresh show ?case by simp
qed

lemma expire_loop_some_expired:
  assumes "set ks \<subseteq> fst ` set d"
    and "\<exists>k e. k \<in> set ks \<and> map_of d k = Some e \<and> t > x + advertisetime e"
  shows "fst (expire_loop t x (length d) ks d) = Some changed_size"
  using assms
proof (induction ks)
  case Nil
  then show ?case by simp
next
  case (Cons k ks)
  from Cons.prems(1) have kin: "k \<in> fst ` set d" by simp
  then have "map_of d k \<noteq> None" by (simp add: map_of_eq_None_iff)
  then obtain e where e: "map_of d k = Some e" by auto
  show ?case
  proof (cases "t > x + advertisetime e")
    case True
    from length_dict_del [OF kin] have "length (dict_del k d) \<noteq> length d" by simp
    from expire_loop_size_changed [OF this] e True show ?thesis by simp
  next
    case False
    with e Cons.prems(2)
    have "\<exists>k e. k \<in> set ks \<and> map_of d k = Some e \<and> t > x + advertisetime e" by auto
    moreover from Cons.prems(1) have "set ks \<subseteq> fst ` set d" by simp
    ultimately have "fst (expire_loop t x (length d) ks d) = Some changed_size"
      by (intro Cons.IH)
    with e False show ?thesis by simp
  qed
qed

lemma mirrorlist_request_raises_when_expired:
  assumes "lock_free env"
    and "distinct (map fst (global_mirrorinfodict st))"
    and "(k, e) \<in> set (global_mirrorinfodict st)"
    and "now env > mirrorexpirytime opts + advertisetime e"
  shows "\<exists>st'. handle opts env ''GET MIRRORLIST'' remoteip st = (Some changed_size, [], st')"
proof -
  from assms(2,3) have "map_of (global_mirrorinfodict st) k = Some e" by simp
  moreover from assms(3) have "k \<in> set (map fst (global_mirrorinfodict st))" by force
  ultimately have "fst (expire_loop (now env) (mirrorexpirytime opts)
      (length (global_mirrorinfodict st)) (map fst (global_mirrorinfodict st))
      (global_mirrorinfodict st)) = Some changed_size"
    using assms(4) by (intro expire_loop_some_expired) auto
  with assms(1) show ?thesis
    by (auto simp: handle_def check_for_expired_mirrorinfo_def split: prod.splits option.splits)
qed

lemma mirrorlist_request_replies_when_fresh:
  assumes "lock_free env"
    and "\<forall>k e. map_of (global_mirrorinfodict st) k = Some e
           \<longrightarrow> \<not> now env > mirrorexpirytime opts + advertisetime e"
  shows "handle opts env ''GET MIRRORLIST'' remoteip st
     = (None, [Packed (map (\<lambda>kv. mirrorinfo (snd kv)) (global_mirrorinfodict st))],
        st\<lparr>global_rawmirrorlist :=
             Packed (map (\<lambda>kv. mirrorinfo (snd kv)) (global_mirrorinfodict st))\<rparr>)"
proof -
  have "expire_loop (now env) (mirrorexpirytime opts)
      (length (global_mirrorinfodict st)) (map fst (global_mirrorinfodict st))
      (global_mirrorinfodict st) = (None, global_mirrorinfodict st)"
    using assms(2) by (intro expire_loop_none_expired) auto
  with assms(1) show ?thesis
    by (simp add: handle_def check_for_expired_mirrorinfo_def)
qed

text \<open>
  C8. A mirror list request that finds an expired mirror does not complete: with one
  expired mirror the handler removes it, raises RuntimeError and sends no reply; with two
  expired mirrors it removes the first, raises, and leaves the second in the map.
\<close>

theorem expired_mirror_raises:
  "handle vendor_defaults at_1000 ''GET MIRRORLIST'' ''10.0.0.9'' one_stale
     = (Some changed_size, [], one_stale\<lparr>global_mirrorinfodict := []\<rparr>)
   \<and> handle vendor_defaults at_1000 ''GET MIRRORLIST'' ''10.0.0.9'' two_stale
     = (Some changed_size, [],
        two_stale\<lparr>global_mirrorinfodict :=
          [(''10.0.0.2:62294'', \<lparr>mirrorinfo = mirror2, advertisetime = 200\<rparr>)]\<rparr>)
   \<and> now at_1000 > mirrorexpirytime vendor_defaults + 200"
  by (simp add: handle_def check_for_expired_mirrorinfo_def vendor_defaults_def at_1000_def
      one_stale_def two_stale_def)

lemma map_of_dict_set: "map_of (dict_set k v d) = (map_of d)(k \<mapsto> v)"
  by (induction d) auto

lemma advertise_stores_str_ip:
  assumes "int (length raw) \<le> maxmirrorinfo opts"
    and "unpackb env raw = Inr (PDict kvs)"
    and "map_of kvs (PStr ''ip'') = Some (PStr ip)"
    and "map_of kvs (PStr ''port'') = Some port"
    and "checkmirrorip opts \<longrightarrow> ip = remoteip"
  shows "handle_advertise opts env raw remoteip st
     = (None, [Text ''OK''],
        st\<lparr>global_mirrorinfodict :=
             dict_set (ip @ '':'' @ pystr env port)
               \<lparr>mirrorinfo = PDict kvs, advertisetime = now env\<rparr> (global_mirrorinfodict st)\<rparr>)"
  using assms
  by (auto simp: handle_advertise_def add_mirrorinfo_to_list_def getitem_def)

lemma advertise_rejected_keeps_map:
  "handle_advertise opts env raw remoteip st = (r, msgs, st') \<Longrightarrow> msgs \<noteq> [Text ''OK'']
     \<Longrightarrow> st' = st"
  by (auto simp: handle_advertise_def add_mirrorinfo_to_list_def
      split: if_splits sum.splits prod.splits option.splits)

text \<open>
  C9. An advertisement of at most maxmirrorinfo bytes that unpacks to a dict with the
  keys \<open>ip\<close> and \<open>port\<close>, where \<open>ip\<close> is the integer 1 and the sender's address is not
  checked, gets no reply and adds no entry: building the key raises TypeError.
\<close>

theorem advertise_with_integer_ip_raises:
  "handle vendor_defaults at_1000 ''MIRRORADVERTISEodd'' ''10.0.0.9'' one_stale
     = (Some (Exc TypeError ''unsupported operand type(s) for +''), [], one_stale)
   \<and> unpackb at_1000 ''odd'' = Inr (PDict [(PStr ''ip'', PInt 1), (PStr ''port'', PInt 2)])
   \<and> int (length ''odd'') \<le> maxmirrorinfo vendor_defaults"
  by (simp add: handle_def handle_advertise_def add_mirrorinfo_to_list_def getitem_def
      vendor_defaults_def at_1000_def odd_mirror_def)

end
